theory Spec2Isabelle
  imports Complex_Main
begin

section \<open>Data model\<close>

text \<open>
  Numbers are JavaScript doubles. A finite double is modelled by the real number it
  denotes; a member that is \<open>undefined\<close>, \<open>null\<close> or \<open>NaN\<close> where the code only tests
  it for truthiness or compares it with a constant is \<open>None\<close> (all three are falsy and
  make \<open>x > c\<close> false for the constants \<open>c\<close> compared against there).
  Text is a list of code units below 256.
\<close>

text \<open>The members of a calendar event that \<open>finnhub.js\<close> reads. \<open>date\<close> holds the time
  value in milliseconds of \<open>new Date(event.date)\<close>, \<open>None\<close> for an Invalid Date.\<close>

record calendar_event =
  symbol :: string
  date :: "int option"
  revenueEstimate :: "real option"
  hour :: "string option"

text \<open>Truthiness of a number: \<open>0\<close> and the absent value are falsy.\<close>

definition truthy_num :: "real option \<Rightarrow> bool" where
  "truthy_num v = (case v of None \<Rightarrow> False | Some x \<Rightarrow> x \<noteq> 0)"

text \<open>\<open>a > c\<close>, \<open>a >= c\<close>, \<open>a <= c\<close>, \<open>a < c\<close> for a number that may be absent or
  \<open>NaN\<close>: every comparison with it is false.\<close>

definition num_gt :: "('a::linorder) option \<Rightarrow> 'a \<Rightarrow> bool" where
  "num_gt v c = (case v of None \<Rightarrow> False | Some x \<Rightarrow> x > c)"

definition num_ge :: "('a::linorder) option \<Rightarrow> 'a \<Rightarrow> bool" where
  "num_ge v c = (case v of None \<Rightarrow> False | Some x \<Rightarrow> x \<ge> c)"

definition num_le :: "('a::linorder) option \<Rightarrow> 'a \<Rightarrow> bool" where
  "num_le v c = (case v of None \<Rightarrow> False | Some x \<Rightarrow> x \<le> c)"

definition num_lt :: "('a::linorder) option \<Rightarrow> 'a \<Rightarrow> bool" where
  "num_lt v c = (case v of None \<Rightarrow> False | Some x \<Rightarrow> x < c)"

section \<open>Prescreen score (\<open>calculatePrescreenScore\<close>, finnhub.js)\<close>

text \<open>\<open>daysToEarnings\<close> is the result of \<open>Math.ceil\<close>: an integer, or \<open>NaN\<close> (\<open>None\<close>).
  The three \<open>score += ...\<close> blocks are the three summands, in the source's order.\<close>

definition calculatePrescreenScore :: "'a calendar_event_scheme \<Rightarrow> int option \<Rightarrow> int" where
  "calculatePrescreenScore event daysToEarnings =
     (let score = 0;
          score = score +
            (if truthy_num (revenueEstimate event) then
               (if num_gt (revenueEstimate event) 10000000000 then 10
                else if num_gt (revenueEstimate event) 1000000000 then 7
                else if num_gt (revenueEstimate event) 100000000 then 5
                else 3)
             else 5);
          score = score +
            (if num_ge daysToEarnings 7 \<and> num_le daysToEarnings 21 then 8
             else if num_ge daysToEarnings 3 \<and> num_le daysToEarnings 30 then 5
             else 2);
          score = score +
            (if hour event = Some ''amc'' then 2
             else if hour event = Some ''bmo'' then 1
             else 0)
      in score)"

section \<open>Analysis validation (\<open>validateAnalysis\<close>, gemini.js)\<close>

record strategy =
  name :: string
  details :: string

text \<open>The members \<open>validateAnalysis\<close> reads; the parser's Analysis extends them.\<close>

record analysis_core =
  sentimentScore :: "int option"
  recommendation :: string
  strategies :: "strategy list"

record validation_result =
  isValid :: bool
  issues :: "string list"

definition truthy_int :: "int option \<Rightarrow> bool" where
  "truthy_int v = (case v of None \<Rightarrow> False | Some x \<Rightarrow> x \<noteq> 0)"

definition validateAnalysis :: "'a analysis_core_scheme \<Rightarrow> validation_result" where
  "validateAnalysis analysis =
     (let issues = [];
          issues = (if \<not> truthy_int (sentimentScore analysis)
                       \<or> num_lt (sentimentScore analysis) 1
                       \<or> num_gt (sentimentScore analysis) 10
                    then issues @ [''Invalid sentiment score''] else issues);
          issues = (if recommendation analysis
                         \<notin> set [''STRONGLY CONSIDER'', ''NEUTRAL'', ''STAY AWAY'']
                    then issues @ [''Invalid recommendation format''] else issues);
          issues = (if length (strategies analysis) = 0
                    then issues @ [''No strategies provided''] else issues);
          issues = (if truthy_int (sentimentScore analysis)
                       \<and> num_lt (sentimentScore analysis) 5
                       \<and> recommendation analysis = ''STRONGLY CONSIDER''
                    then issues @ [''Inconsistent sentiment and recommendation'']
                    else issues)
      in \<lparr> isValid = (length issues = 0), issues = issues \<rparr>)"

section \<open>Errors\<close>

text \<open>Every \<open>throw\<close> and every rejected promise is a value of this type.\<close>

datatype error =
    HttpError int string      \<comment> \<open>\<open>new Error(`Finnhub API error: ${status} ${statusText}`)\<close>\<close>
  | ApiError string           \<comment> \<open>\<open>new Error(`Finnhub API Error: ${statusText}`)\<close>\<close>
  | RequestFailed             \<comment> \<open>\<open>new Error('Finnhub API request failed')\<close>\<close>
  | NetworkError string       \<comment> \<open>\<open>fetch\<close> rejected\<close>
  | JsonError string          \<comment> \<open>\<open>response.json()\<close> rejected\<close>
  | TypeError string          \<comment> \<open>a member read on \<open>null\<close> or \<open>undefined\<close>\<close>
  | ServiceError string       \<comment> \<open>an external collaborator rejected\<close>

text \<open>A \<open>fetch\<close> response; \<open>json\<close> is the outcome of \<open>response.json()\<close>.\<close>

record 'b response =
  ok :: bool
  status :: int
  statusText :: string
  json :: "error + 'b"

section \<open>Opportunity pipeline (\<open>getEarningsOpportunities\<close>, finnhub.js)\<close>

text \<open>The members of a volatility snapshot that \<open>calculateQualityScore\<close> and the
  prompt templates of \<open>gemini.js\<close> read; each is a number or absent.
  \<open>volatilityScore_vd\<close> is \<open>volatilityData.volatilityScore\<close>, named apart from the
  opportunity's own \<open>volatilityScore\<close>.\<close>

record technical_indicators =
  rsi :: "real option"

record volatility_data =
  currentPrice :: "real option"
  expectedMove :: "real option"
  impliedVolatility :: "real option"
  historicalVolatility :: "real option"
  volatilityScore_vd :: "real option"
  optionsVolume :: "real option"
  technicalIndicators :: "technical_indicators option"

text \<open>\<open>{...event, daysToEarnings, prescreenScore}\<close> and then
  \<open>{...event, volatilityData, volatilityScore, qualityScore}\<close>: each spread is a record
  extension.\<close>

record prescreened = calendar_event +
  daysToEarnings :: "int option"
  prescreenScore :: int

record opportunity = prescreened +
  volatilityData :: "volatility_data option"
  volatilityScore :: "real option"
  qualityScore :: int

record weights =
  volatility :: real
  timing :: real
  liquidity :: real
  technical :: real
  dataAvailability :: real

text \<open>\<open>a || b\<close> on numbers.\<close>

definition or_num :: "real option \<Rightarrow> real option \<Rightarrow> real option" where
  "or_num a b = (if truthy_num a then a else b)"

text \<open>\<open>Math.round\<close>: the nearest integer, a tie going up.\<close>

definition Math_round :: "real \<Rightarrow> int" where
  "Math_round x = \<lfloor>x + 1 / 2\<rfloor>"

text \<open>
  \<open>calculateQualityScore\<close>. Each product of a weight with its decimal factor
  (\<open>30 * 0.8\<close>, \<open>25 * 0.7\<close>, \<open>20 * 0.7\<close>, \<open>15 * 0.2\<close>, ...) is, computed in doubles, exactly
  the multiple of one half that the real product is, and so are the sums; the real
  arithmetic below is the double arithmetic of the source.
\<close>

definition calculateQualityScore :: "'a opportunity_scheme \<Rightarrow> int" where
  "calculateQualityScore opportunity =
     (let score = 10;
          weights = \<lparr> volatility = 30, timing = 25, liquidity = 20, technical = 15,
                      dataAvailability = 10 \<rparr>;
          score = (case volatilityData opportunity of
                     None \<Rightarrow> score
                   | Some vd \<Rightarrow>
                       (let score = score + dataAvailability weights
                        in if num_gt (historicalVolatility vd) 0 then score + 5 else score));
          volatilityScore =
            or_num (or_num (case volatilityData opportunity of
                              None \<Rightarrow> None | Some vd \<Rightarrow> volatilityScore_vd vd)
                           (volatilityScore opportunity))
                   (Some 0);
          score = (if num_gt volatilityScore 70 then score + volatility weights
                   else if num_gt volatilityScore 50 then score + volatility weights * 0.8
                   else if num_gt volatilityScore 30 then score + volatility weights * 0.6
                   else if num_gt volatilityScore 10 then score + volatility weights * 0.4
                   else score + volatility weights * 0.2);
          daysToEarnings = daysToEarnings opportunity;
          score = (if num_ge daysToEarnings 14 \<and> num_le daysToEarnings 21
                   then score + timing weights
                   else if num_ge daysToEarnings 10 \<and> num_le daysToEarnings 28
                   then score + timing weights * 0.7
                   else if num_ge daysToEarnings 5 \<and> num_le daysToEarnings 35
                   then score + timing weights * 0.4
                   else score + timing weights * 0.2);
          optionsVolume =
            or_num (case volatilityData opportunity of
                      None \<Rightarrow> None | Some vd \<Rightarrow> optionsVolume vd)
                   (Some 0);
          score = (if num_gt optionsVolume 10000 then score + liquidity weights
                   else if num_gt optionsVolume 5000 then score + liquidity weights * 0.7
                   else if num_gt optionsVolume 1000 then score + liquidity weights * 0.4
                   else if num_gt optionsVolume 0 then score + liquidity weights * 0.2
                   else score);
          rsi = (case volatilityData opportunity of
                   None \<Rightarrow> None
                 | Some vd \<Rightarrow> (case technicalIndicators vd of
                                None \<Rightarrow> None | Some ti \<Rightarrow> rsi ti));
          score = (if truthy_num rsi then
                     (if num_gt rsi 70 \<or> num_lt rsi 30 then score + technical weights
                      else if num_gt rsi 60 \<or> num_lt rsi 40
                      then score + technical weights * 0.5
                      else score + technical weights * 0.2)
                   else score)
      in Math_round score)"

text \<open>\<open>Math.ceil((earningsDate - fromDate) / (1000 * 60 * 60 * 24))\<close>, where a
  \<open>Date\<close> in arithmetic is its time value in milliseconds and an Invalid Date is
  \<open>NaN\<close>. For time values of \<open>Date\<close> objects the double quotient's ceiling lies in
  \<open>[1, 45]\<close> exactly when the real quotient's does.\<close>

definition daysBetween :: "int option \<Rightarrow> int \<Rightarrow> int option" where
  "daysBetween earningsDate fromDate =
     (case earningsDate of
        None \<Rightarrow> None
      | Some t \<Rightarrow> Some \<lceil>real_of_int (t - fromDate) / (1000 * 60 * 60 * 24)\<rceil>)"

text \<open>The time-window filter of lines 113--117.\<close>

definition timeWindowFilter :: "int \<Rightarrow> calendar_event list \<Rightarrow> calendar_event list" where
  "timeWindowFilter fromDate universeFiltered =
     filter (\<lambda>event.
               (let earningsDate = date event;
                    daysToEarnings = daysBetween earningsDate fromDate
                in num_ge daysToEarnings 1 \<and> num_le daysToEarnings 45))
            universeFiltered"

text \<open>The body of the calendar reply: \<open>earningsCalendar\<close> is \<open>None\<close> when the member
  is missing, \<open>null\<close> or otherwise falsy.\<close>

record calendar_data =
  earningsCalendar :: "calendar_event list option"

text \<open>
  What one run of the pipeline receives from outside: the clock (\<open>new Date()\<close> at line 83,
  and again at line 127 for the \<open>i\<close>-th event of the map), the outcome of the calendar
  \<open>fetch\<close>, the stock universe of \<open>config.js\<close>, and the two functions of
  \<open>real-volatility.js\<close>. The bulk analysis returns an object from symbols to
  snapshots; a symbol that is missing or mapped to \<open>null\<close> is \<open>None\<close>.
\<close>

record pipeline_env =
  now :: int
  nowAt :: "nat \<Rightarrow> int"
  fetchCalendar :: "error + calendar_data response"
  STOCK_UNIVERSE :: "string list"
  getBulkVolatilityAnalysis :: "string list \<Rightarrow> error + (string \<rightharpoonup> volatility_data)"
  calculateVolatilityScore :: "volatility_data option \<Rightarrow> real option"

text \<open>The callback of the prescreen map (lines 126--134), for the \<open>i\<close>-th event.\<close>

definition prescreen :: "pipeline_env \<Rightarrow> nat \<times> calendar_event \<Rightarrow> prescreened" where
  "prescreen E ie =
     (let event = snd ie;
          daysToEarnings = daysBetween (date event) (nowAt E (fst ie));
          prescreenScore = calculatePrescreenScore event daysToEarnings
      in calendar_event.extend event
           (prescreened.fields daysToEarnings prescreenScore))"

text \<open>The callback of the enrichment map (lines 153--167).\<close>

definition enhance ::
  "pipeline_env \<Rightarrow> (string \<rightharpoonup> volatility_data) \<Rightarrow> prescreened \<Rightarrow> opportunity" where
  "enhance E volatilityMap event =
     (let volatility = volatilityMap (symbol event);
          enhanced = prescreened.extend event
            (opportunity.fields volatility (calculateVolatilityScore E volatility) 0)
      in enhanced \<lparr> qualityScore := calculateQualityScore enhanced \<rparr>)"

text \<open>\<open>Array.prototype.sort\<close> is stable; with the comparator \<open>(a, b) => key(b) - key(a)\<close>
  on integer keys it is a stable sort by descending key.\<close>

definition sort_desc :: "('a \<Rightarrow> int) \<Rightarrow> 'a list \<Rightarrow> 'a list" where
  "sort_desc key xs = sort_key (\<lambda>x. - key x) xs"

definition getEarningsOpportunities :: "pipeline_env \<Rightarrow> error + opportunity list" where
  "getEarningsOpportunities E =
     (let fromDate = now E in
      case fetchCalendar E of
        Inl err \<Rightarrow> Inl err
      | Inr response \<Rightarrow>
          if \<not> ok response then Inl (ApiError (statusText response))
          else
            (case json response of
               Inl err \<Rightarrow> Inl err
             | Inr data \<Rightarrow>
                 (let earningsCalendar =
                        (case earningsCalendar data of Some evs \<Rightarrow> evs | None \<Rightarrow> []);
                      universeFiltered =
                        filter (\<lambda>event. symbol event \<in> set (STOCK_UNIVERSE E))
                          earningsCalendar;
                      timeWindowFiltered = timeWindowFilter fromDate universeFiltered
                  in if length timeWindowFiltered = 0 then Inr []
                     else
                       (let prescreened =
                              take 8 (sort_desc prescreenScore
                                (map (prescreen E) (enumerate 0 timeWindowFiltered)));
                            symbols = map symbol prescreened
                        in case getBulkVolatilityAnalysis E symbols of
                             Inl err \<Rightarrow> Inl err
                           | Inr volatilityMap \<Rightarrow>
                               (let enhancedOpportunities =
                                      map (enhance E volatilityMap) prescreened;
                                    qualifiedOpportunities =
                                      sort_desc qualityScore
                                        (filter (\<lambda>opp. qualityScore opp > 5)
                                          (filter (\<lambda>opp. volatilityData opp \<noteq> None)
                                            enhancedOpportunities))
                                in Inr (take 5 qualifiedOpportunities))))))"

section \<open>JSON values\<close>

text \<open>A parsed JSON body. \<open>JObj kvs\<close> is the object whose members are \<open>map_of kvs\<close>.\<close>

datatype json =
    JNull
  | JBool bool
  | JNum real
  | JStr string
  | JArr "json list"
  | JObj "(string \<times> json) list"

text \<open>The member read \<open>v.k\<close>, for a name \<open>k\<close> that no built-in prototype defines
  (\<open>earningsCalendar\<close>, \<open>c\<close>): on \<open>null\<close> it throws a TypeError, on an object it is the
  member or \<open>undefined\<close> (\<open>None\<close>), on any other value it is \<open>undefined\<close>.\<close>

definition member_of :: "json \<Rightarrow> string \<Rightarrow> error + json option" where
  "member_of v k =
     (case v of
        JNull \<Rightarrow>
          Inl (TypeError (''Cannot read properties of null (reading '' @ [CHR 0x27] @ k
                            @ [CHR 0x27] @ '')''))
      | JObj kvs \<Rightarrow> Inr (map_of kvs k)
      | _ \<Rightarrow> Inr None)"

text \<open>Truthiness of a value that may be \<open>undefined\<close>.\<close>

definition truthy :: "json option \<Rightarrow> bool" where
  "truthy v =
     (case v of
        None \<Rightarrow> False
      | Some JNull \<Rightarrow> False
      | Some (JBool b) \<Rightarrow> b
      | Some (JNum x) \<Rightarrow> x \<noteq> 0
      | Some (JStr s) \<Rightarrow> s \<noteq> []
      | Some (JArr xs) \<Rightarrow> True
      | Some (JObj kvs) \<Rightarrow> True)"

text \<open>The number a value is converted to when it is compared with a number
  (\<open>None\<close> is \<open>NaN\<close>). The conversion of strings, arrays and objects is the
  runtime's, taken as the parameter \<open>conv\<close>.\<close>

definition toNumber :: "(json \<Rightarrow> real option) \<Rightarrow> json option \<Rightarrow> real option" where
  "toNumber conv v =
     (case v of
        None \<Rightarrow> None
      | Some JNull \<Rightarrow> Some 0
      | Some (JBool b) \<Rightarrow> Some (if b then 1 else 0)
      | Some (JNum x) \<Rightarrow> Some x
      | Some j \<Rightarrow> conv j)"

section \<open>HTTP client (\<open>class FinnhubAPI\<close>, finnhub.js)\<close>

text \<open>
  The outside world of the client: \<open>fetch E n url\<close> is the outcome of the \<open>n\<close>-th call
  of \<open>fetch\<close> (counted from 0), a rejection or a response; \<open>random E n\<close> is the \<open>n\<close>-th
  value of \<open>Math.random()\<close>. The state threaded through the calls counts the fetches
  issued and the random draws, and logs every delay awaited with \<open>setTimeout\<close>.
\<close>

record http_env =
  fetch :: "nat \<Rightarrow> string \<Rightarrow> error + json response"
  random :: "nat \<Rightarrow> real"

record world =
  fetches :: nat
  draws :: nat
  slept :: "real list"

record FinnhubAPI =
  apiKey :: string
  baseUrl :: string
  delay :: real

definition new_FinnhubAPI :: "string \<Rightarrow> real \<Rightarrow> FinnhubAPI" where
  "new_FinnhubAPI key ms =
     \<lparr> apiKey = key, baseUrl = ''https://finnhub.io/api/v1'', delay = ms \<rparr>"

text \<open>\<open>const delay = Math.round(baseDelayMs * Math.pow(2, attempt) + Math.random() * 100);
  await new Promise(r => setTimeout(r, delay))\<close>, inside the loop, where
  \<open>attempt\<close> is not negative. The sum is that of the real numbers; the source rounds
  the product \<open>Math.random() * 100\<close> and the sum to doubles before \<open>Math.round\<close>, which
  can move a sum lying within a rounding error of a half-integer to the next
  millisecond.\<close>

definition backoff :: "http_env \<Rightarrow> real \<Rightarrow> int \<Rightarrow> world \<Rightarrow> world" where
  "backoff E baseDelayMs attempt w =
     (let delay = Math_round (baseDelayMs * 2 ^ nat attempt + random E (draws w) * 100)
      in w \<lparr> draws := draws w + 1, slept := slept w @ [real_of_int delay] \<rparr>)"

text \<open>One pass through the loop body ends in \<open>return\<close> (\<open>Inl\<close> of the value) or goes on
  to \<open>attempt++\<close> (\<open>Inr\<close> of the value \<open>lastError\<close> then has).\<close>

text \<open>The \<open>catch (err)\<close> block of lines 36--44.\<close>

definition catch_block ::
  "http_env \<Rightarrow> int \<Rightarrow> real \<Rightarrow> int \<Rightarrow> error \<Rightarrow> world \<Rightarrow> (json + error option) \<times> world" where
  "catch_block E retries baseDelayMs attempt err w =
     (let lastError = Some err
      in if attempt < retries then (Inr lastError, backoff E baseDelayMs attempt w)
         else (Inr lastError, w))"

text \<open>The \<open>try\<close> block of lines 18--35 with its \<open>catch\<close>: whatever is thrown inside
  \<open>try\<close>, the \<open>throw new Error(...)\<close> of line 28 included, goes to \<open>catch_block\<close>.\<close>

definition loop_body ::
  "http_env \<Rightarrow> FinnhubAPI \<Rightarrow> string \<Rightarrow> int \<Rightarrow> real \<Rightarrow> int \<Rightarrow> error option \<Rightarrow> world
     \<Rightarrow> (json + error option) \<times> world" where
  "loop_body E this url retries baseDelayMs attempt lastError w0 =
     (let w = w0 \<lparr> fetches := fetches w0 + 1 \<rparr> in
      case fetch E (fetches w0) url of
        Inl err \<Rightarrow> catch_block E retries baseDelayMs attempt err w
      | Inr response \<Rightarrow>
          if \<not> ok response then
            (let status = status response in
             if (status = 429 \<or> (status \<ge> 500 \<and> status < 600)) \<and> attempt < retries
             then (Inr lastError, backoff E baseDelayMs attempt w)
             else catch_block E retries baseDelayMs attempt
                    (HttpError (response.status response) (statusText response)) w)
          else
            (let w = (if delay this > 0 then w \<lparr> slept := slept w @ [delay this] \<rparr> else w) in
             case json response of
               Inl err \<Rightarrow> catch_block E retries baseDelayMs attempt err w
             | Inr body \<Rightarrow> (Inl body, w)))"

text \<open>\<open>for (let attempt = 0; attempt <= retries; attempt++) { ... }
  throw lastError || new Error('Finnhub API request failed')\<close>.\<close>

function makeRequest_loop ::
  "http_env \<Rightarrow> FinnhubAPI \<Rightarrow> string \<Rightarrow> int \<Rightarrow> real \<Rightarrow> int \<Rightarrow> error option \<Rightarrow> world
     \<Rightarrow> (error + json) \<times> world" where
  "makeRequest_loop E this url retries baseDelayMs attempt lastError w =
     (if attempt \<le> retries then
        (case loop_body E this url retries baseDelayMs attempt lastError w of
           (Inl body, w') \<Rightarrow> (Inr body, w')
         | (Inr lastError', w') \<Rightarrow>
             makeRequest_loop E this url retries baseDelayMs (attempt + 1) lastError' w')
      else
        (Inl (case lastError of Some err \<Rightarrow> err | None \<Rightarrow> RequestFailed), w))"
  by pat_completeness auto
termination
  by (relation "measure (\<lambda>(E, this, url, retries, baseDelayMs, attempt, lastError, w).
                           nat (retries + 1 - attempt))") auto

definition makeRequest ::
  "http_env \<Rightarrow> FinnhubAPI \<Rightarrow> string \<Rightarrow> int \<Rightarrow> real \<Rightarrow> world \<Rightarrow> (error + json) \<times> world" where
  "makeRequest E this endpoint retries baseDelayMs w =
     (let url = baseUrl this @ endpoint @ ''&token='' @ apiKey this
      in makeRequest_loop E this url retries baseDelayMs 0 None w)"

text \<open>\<open>getEarningsCalendar\<close>: \<open>makeRequest\<close> with its default options
  \<open>{retries = 3, baseDelayMs = 400}\<close>, then \<open>data.earningsCalendar || []\<close>.\<close>

definition getEarningsCalendar ::
  "http_env \<Rightarrow> FinnhubAPI \<Rightarrow> string \<Rightarrow> string \<Rightarrow> world \<Rightarrow> (error + json) \<times> world" where
  "getEarningsCalendar E this fromDate toDate w =
     (case makeRequest E this (''/calendar/earnings?from='' @ fromDate @ ''&to='' @ toDate)
             3 400 w of
        (Inl err, w') \<Rightarrow> (Inl err, w')
      | (Inr data, w') \<Rightarrow>
          (case member_of data ''earningsCalendar'' of
             Inl err \<Rightarrow> (Inl err, w')
           | Inr None \<Rightarrow> (Inr (JArr []), w')
           | Inr (Some v) \<Rightarrow> (Inr (if truthy (Some v) then v else JArr []), w')))"

definition getQuote ::
  "http_env \<Rightarrow> FinnhubAPI \<Rightarrow> string \<Rightarrow> world \<Rightarrow> (error + json) \<times> world" where
  "getQuote E this ticker w = makeRequest E this (''/quote?symbol='' @ ticker) 3 400 w"

section \<open>Market context (\<open>getMarketContext\<close>, finnhub.js)\<close>

text \<open>\<open>vix\<close> is a JSON value or \<open>undefined\<close> (\<open>None\<close>); the object returned on failure
  has no \<open>lastUpdated\<close>.\<close>

record market_context =
  vix :: "json option"
  marketRegime :: string
  lastUpdated :: "string option"

text \<open>The outside world of the probe: the outcome of the one \<open>fetch\<close>, the runtime's
  conversion to number of a non-primitive quote value, and the clock's
  \<open>new Date().toISOString()\<close>.\<close>

record market_env =
  fetchVix :: "error + json response"
  convert :: "json \<Rightarrow> real option"
  nowISO :: string

text \<open>The \<open>try\<close> block of lines 270--293.\<close>

definition getMarketContext_try :: "market_env \<Rightarrow> error + market_context" where
  "getMarketContext_try E =
     (case fetchVix E of
        Inl err \<Rightarrow> Inl err
      | Inr vixResponse \<Rightarrow>
          if \<not> ok vixResponse then
            Inr \<lparr> vix = Some JNull, marketRegime = ''unknown'', lastUpdated = None \<rparr>
          else
            (case json vixResponse of
               Inl err \<Rightarrow> Inl err
             | Inr vixData \<Rightarrow>
                 (case member_of vixData ''c'' of
                    Inl err \<Rightarrow> Inl err
                  | Inr vixLevel \<Rightarrow>
                      (let marketRegime = ''normal'';
                           marketRegime =
                             (if num_gt (toNumber (convert E) vixLevel) 30
                              then ''high-volatility''
                              else if num_gt (toNumber (convert E) vixLevel) 20
                              then ''elevated-volatility''
                              else if num_lt (toNumber (convert E) vixLevel) 15
                              then ''low-volatility''
                              else marketRegime)
                       in Inr \<lparr> vix = vixLevel, marketRegime = marketRegime,
                                lastUpdated = Some (nowISO E) \<rparr>))))"

text \<open>The whole function: the \<open>catch\<close> block of lines 294--297 turns every error of the
  \<open>try\<close> block into a returned value.\<close>

definition getMarketContext :: "market_env \<Rightarrow> error + market_context" where
  "getMarketContext E =
     (case getMarketContext_try E of
        Inl error \<Rightarrow> Inr \<lparr> vix = Some JNull, marketRegime = ''unknown'', lastUpdated = None \<rparr>
      | Inr context \<Rightarrow> Inr context)"

section \<open>Regular expressions\<close>

text \<open>
  The patterns of \<open>gemini.js\<close> are matched by the JavaScript engine: a backtracking
  matcher that tries the start positions from left to right and, at each, the
  alternatives in order, the greedy quantifiers longest first and the lazy ones shortest
  first. Every quantifier in the source is applied to a single-character matcher, every
  pattern character is ASCII, and no pattern has a back-reference, a look-behind or
  \<open>^\<close>, so a match at a position depends on the text from that position on.
\<close>

definition code :: "char \<Rightarrow> nat" where
  "code c = of_char c"

text \<open>\<open>\s\<close>, and what \<open>trim\<close> removes: tab, line feed, vertical tab, form feed,
  carriage return, space, no-break space.\<close>

definition isSpace :: "char \<Rightarrow> bool" where
  "isSpace c = (code c \<in> {9, 10, 11, 12, 13, 32, 160})"

definition isDigit :: "char \<Rightarrow> bool" where
  "isDigit c = (48 \<le> code c \<and> code c \<le> 57)"

text \<open>Case conversion of ASCII letters. Under the flag \<open>i\<close> a pattern character and a
  text character match when their upper-case forms are equal; a code unit from 128 on
  never matches an ASCII pattern character.\<close>

definition toUpper :: "char \<Rightarrow> char" where
  "toUpper c = (if 97 \<le> code c \<and> code c \<le> 122 then char_of (code c - 32) else c)"

definition toLower :: "char \<Rightarrow> char" where
  "toLower c = (if 65 \<le> code c \<and> code c \<le> 90 then char_of (code c + 32) else c)"

text \<open>Members of a character class: a character, a range \<open>a-b\<close>, \<open>\s\<close>, \<open>\d\<close>.\<close>

datatype cset = Chr char | Rng char char | Space | Digit

text \<open>Single-character matchers: \<open>[...]\<close> (or one escape), \<open>[^...]\<close>, and
  \<open>[\s\S]\<close>.\<close>

datatype cm = One "cset list" | NoneOf "cset list" | AnyChar

datatype rx =
    Ch cm                 \<comment> \<open>one character\<close>
  | Lit string            \<comment> \<open>literal text\<close>
  | Star cm               \<comment> \<open>\<open>c*\<close>\<close>
  | Plus cm               \<comment> \<open>\<open>c+\<close>\<close>
  | LazyStar cm           \<comment> \<open>\<open>c*?\<close>\<close>
  | Eps                   \<comment> \<open>the empty pattern\<close>
  | Seq rx rx             \<comment> \<open>\<open>ab\<close>\<close>
  | Alt rx rx             \<comment> \<open>\<open>a|b\<close>\<close>
  | Group nat rx          \<comment> \<open>capture group number \<open>n\<close>\<close>
  | Lookahead rx          \<comment> \<open>\<open>(?=a)\<close>\<close>
  | EndOfInput            \<comment> \<open>\<open>$\<close> without the flag \<open>m\<close>\<close>

fun in_cset :: "bool \<Rightarrow> cset \<Rightarrow> char \<Rightarrow> bool" where
  "in_cset ic (Chr a) x = (if ic then toUpper x = toUpper a else x = a)"
| "in_cset ic (Rng a b) x =
     (if ic then (code a \<le> code (toUpper x) \<and> code (toUpper x) \<le> code b)
               \<or> (code a \<le> code (toLower (toUpper x))
                  \<and> code (toLower (toUpper x)) \<le> code b)
      else code a \<le> code x \<and> code x \<le> code b)"
| "in_cset ic Space x = isSpace x"
| "in_cset ic Digit x = isDigit x"

fun matches :: "bool \<Rightarrow> cm \<Rightarrow> char \<Rightarrow> bool" where
  "matches ic (One cs) x = (\<exists>c \<in> set cs. in_cset ic c x)"
| "matches ic (NoneOf cs) x = (\<not> (\<exists>c \<in> set cs. in_cset ic c x))"
| "matches ic AnyChar x = True"

text \<open>The matcher is written with continuations: \<open>mt ic r k s cp\<close> matches \<open>r\<close> at the
  start of \<open>s\<close> with the captures \<open>cp\<close> so far and hands the rest of the text and the
  captures to \<open>k\<close>; when \<open>k\<close> fails, the next way to match \<open>r\<close> is tried.\<close>

type_synonym caps = "nat \<rightharpoonup> string"
type_synonym 'r cont = "string \<Rightarrow> caps \<Rightarrow> 'r option"

fun lit :: "bool \<Rightarrow> string \<Rightarrow> 'r cont \<Rightarrow> 'r cont" where
  "lit ic [] k s cp = k s cp"
| "lit ic (a # as) k [] cp = None"
| "lit ic (a # as) k (x # xs) cp =
     (if in_cset ic (Chr a) x then lit ic as k xs cp else None)"

fun greedy :: "(char \<Rightarrow> bool) \<Rightarrow> 'r cont \<Rightarrow> 'r cont" where
  "greedy p k [] cp = k [] cp"
| "greedy p k (x # xs) cp =
     (if p x then (case greedy p k xs cp of Some r \<Rightarrow> Some r | None \<Rightarrow> k (x # xs) cp)
      else k (x # xs) cp)"

fun lazy :: "(char \<Rightarrow> bool) \<Rightarrow> 'r cont \<Rightarrow> 'r cont" where
  "lazy p k [] cp = k [] cp"
| "lazy p k (x # xs) cp =
     (case k (x # xs) cp of
        Some r \<Rightarrow> Some r
      | None \<Rightarrow> if p x then lazy p k xs cp else None)"

primrec mt :: "bool \<Rightarrow> rx \<Rightarrow> (string \<times> caps) cont \<Rightarrow> (string \<times> caps) cont" where
  "mt ic (Ch c) k =
     (\<lambda>s cp. case s of [] \<Rightarrow> None | x # xs \<Rightarrow> if matches ic c x then k xs cp else None)"
| "mt ic (Lit l) k = lit ic l k"
| "mt ic (Star c) k = greedy (matches ic c) k"
| "mt ic (Plus c) k =
     (\<lambda>s cp. case s of
                [] \<Rightarrow> None
              | x # xs \<Rightarrow> if matches ic c x then greedy (matches ic c) k xs cp else None)"
| "mt ic (LazyStar c) k = lazy (matches ic c) k"
| "mt ic Eps k = k"
| "mt ic (Seq a b) k = mt ic a (mt ic b k)"
| "mt ic (Alt a b) k =
     (\<lambda>s cp. case mt ic a k s cp of Some r \<Rightarrow> Some r | None \<Rightarrow> mt ic b k s cp)"
| "mt ic (Group i a) k =
     (\<lambda>s cp. mt ic a (\<lambda>s' cp'. k s' (cp'(i \<mapsto> take (length s - length s') s))) s cp)"
| "mt ic (Lookahead a) k =
     (\<lambda>s cp. case mt ic a (\<lambda>s' cp'. Some (s', cp')) s cp of
                Some r \<Rightarrow> k s (snd r)
              | None \<Rightarrow> None)"
| "mt ic EndOfInput k = (\<lambda>s cp. if s = [] then k s cp else None)"


text \<open>A match object: \<open>index\<close>, the matched text \<open>match[0]\<close> and the groups
  \<open>match[1]\<close>, \<open>match[2]\<close>.\<close>

record match =
  index :: nat
  matched :: string
  groups :: caps

text \<open>\<open>exec_from ic r i s\<close>: the first match of \<open>r\<close> in a text whose part from
  position \<open>i\<close> on is \<open>s\<close>. \<open>ic\<close> is the flag \<open>i\<close>.\<close>

fun exec_from :: "bool \<Rightarrow> rx \<Rightarrow> nat \<Rightarrow> string \<Rightarrow> match option" where
  "exec_from ic r i s =
     (case mt ic r (\<lambda>s' cp. Some (s', cp)) s Map.empty of
        Some (s', cp) \<Rightarrow>
          Some \<lparr> index = i, matched = take (length s - length s') s, groups = cp \<rparr>
      | None \<Rightarrow> (case s of [] \<Rightarrow> None | x # xs \<Rightarrow> exec_from ic r (Suc i) xs))"

declare exec_from.simps [simp del]

text \<open>\<open>str.match(re)\<close> for a pattern without the flag \<open>g\<close>.\<close>

definition exec :: "bool \<Rightarrow> rx \<Rightarrow> string \<Rightarrow> match option" where
  "exec ic r s = exec_from ic r 0 s"

text \<open>\<open>str.match(re)\<close> for a pattern with the flag \<open>g\<close>: the texts of the successive
  matches, each search starting where the last match ended (one further after an empty
  match).\<close>

function match_all :: "bool \<Rightarrow> rx \<Rightarrow> string \<Rightarrow> string list" where
  "match_all ic r s =
     (case exec ic r s of
        None \<Rightarrow> []
      | Some m \<Rightarrow>
          matched m #
          (let lastIndex = index m + max (length (matched m)) 1
           in if lastIndex \<le> length s then match_all ic r (drop lastIndex s) else []))"
  by pat_completeness auto
termination
  by (relation "measure (\<lambda>(ic, r, s). length s)") auto

text \<open>\<open>str.replace(re, '')\<close> for a pattern without the flag \<open>g\<close>.\<close>

definition replace_first :: "bool \<Rightarrow> rx \<Rightarrow> string \<Rightarrow> string" where
  "replace_first ic r s =
     (case exec ic r s of
        None \<Rightarrow> s
      | Some m \<Rightarrow> take (index m) s @ drop (index m + length (matched m)) s)"

definition trim :: "string \<Rightarrow> string" where
  "trim s = rev (dropWhile isSpace (rev (dropWhile isSpace s)))"

definition toUpperCase :: "string \<Rightarrow> string" where
  "toUpperCase s = map toUpper s"

text \<open>\<open>parseInt\<close> of a run of decimal digits, as the integer it denotes. The source's
  value is a double: it is this integer up to \<open>2^53\<close>, and the double nearest to it
  beyond.\<close>

definition parseInt :: "string \<Rightarrow> int" where
  "parseInt ds = foldl (\<lambda>n c. 10 * n + (int (code c) - 48)) 0 ds"

definition seq :: "rx list \<Rightarrow> rx" where
  "seq rs = foldr Seq rs Eps"

definition sp :: cm where
  "sp = One [Space]"

definition dig :: cm where
  "dig = One [Digit]"

section \<open>Response parser (\<open>parseAnalysisResponse\<close>, gemini.js)\<close>

text \<open>
  \<open>/\*\*SENTIMENT SCORE:\*\*\s*(\d+)/i\<close>, \<open>/SENTIMENT SCORE:\s*(\d+)/i\<close>,
  \<open>/sentiment[^:]*:\s*(\d+)/i\<close>, \<open>/sentiment[^0-9]*(\d+)/i\<close>, tried in this order.
\<close>

definition sentimentPatterns :: "rx list" where
  "sentimentPatterns =
     [seq [Lit ''**SENTIMENT SCORE:**'', Star sp, Group 1 (Plus dig)],
      seq [Lit ''SENTIMENT SCORE:'', Star sp, Group 1 (Plus dig)],
      seq [Lit ''sentiment'', Star (NoneOf [Chr CHR '':'']), Lit '':'', Star sp,
           Group 1 (Plus dig)],
      seq [Lit ''sentiment'', Star (NoneOf [Rng CHR ''0'' CHR ''9'']), Group 1 (Plus dig)]]"

text \<open>\<open>(STRONGLY CONSIDER|NEUTRAL|STAY AWAY)\<close>, then
  \<open>/\*\*RECOMMENDATION:\*\*\s*(...)/i\<close>, \<open>/RECOMMENDATION:\s*(...)/i\<close>, \<open>/(...)/i\<close>.\<close>

definition phrases :: rx where
  "phrases =
     Group 1 (Alt (Lit ''STRONGLY CONSIDER'') (Alt (Lit ''NEUTRAL'') (Lit ''STAY AWAY'')))"

definition recommendationPatterns :: "rx list" where
  "recommendationPatterns =
     [seq [Lit ''**RECOMMENDATION:**'', Star sp, phrases],
      seq [Lit ''RECOMMENDATION:'', Star sp, phrases],
      phrases]"

text \<open>\<open>/\d\.\s*\*\*([^*]+)\*\*([\s\S]*?)(?=\d\.\s*\*\*|\*\*POSITION SIZING|\n\n|$)/gi\<close>\<close>

definition strategyPattern :: rx where
  "strategyPattern =
     seq [Ch dig, Lit ''.'', Star sp, Lit ''**'', Group 1 (Plus (NoneOf [Chr CHR ''*''])),
          Lit ''**'', Group 2 (LazyStar AnyChar),
          Lookahead (Alt (seq [Ch dig, Lit ''.'', Star sp, Lit ''**''])
                    (Alt (Lit ''**POSITION SIZING'')
                    (Alt (Lit [CHR 0x0A, CHR 0x0A]) EndOfInput)))]"

text \<open>\<open>/\*\*([^*]+)\*\*/\<close>\<close>

definition strategyNamePattern :: rx where
  "strategyNamePattern =
     seq [Lit ''**'', Group 1 (Plus (NoneOf [Chr CHR ''*''])), Lit ''**'']"

text \<open>\<open>/\*\*HEADING:\*\*\s*([\s\S]*?)(?=\*\*[A-Z\s]+:|$)/i\<close>\<close>

definition sectionPattern :: "string \<Rightarrow> rx" where
  "sectionPattern heading =
     seq [Lit (''**'' @ heading @ '':**''), Star sp, Group 1 (LazyStar AnyChar),
          Lookahead (Alt (seq [Lit ''**'', Plus (One [Rng CHR ''A'' CHR ''Z'', Space]),
                               Lit '':''])
                         EndOfInput)]"

text \<open>The cascade \<open>let m = s.match(p1); if (!m) m = s.match(p2); ...\<close>\<close>

fun first_match :: "bool \<Rightarrow> rx list \<Rightarrow> string \<Rightarrow> match option" where
  "first_match ic [] s = None"
| "first_match ic (r # rs) s =
     (case exec ic r s of Some m \<Rightarrow> Some m | None \<Rightarrow> first_match ic rs s)"

text \<open>The Analysis object; \<open>symbol_a\<close> is its member \<open>symbol\<close>.\<close>

record analysis = analysis_core +
  symbol_a :: string
  volatilityAssessment :: string
  riskFactors :: string
  positionSizing :: string
  rawAnalysis :: string

text \<open>Lines 259--270: each match of the strategy pattern gives a strategy when its
  trimmed name is not empty.\<close>

definition parseStrategies :: "string \<Rightarrow> strategy list" where
  "parseStrategies rawResponse =
     foldl (\<lambda>strategies m.
              (case (case exec False strategyNamePattern m of
                       None \<Rightarrow> None
                     | Some nm \<Rightarrow> map_option trim (groups nm 1)) of
                 None \<Rightarrow> strategies
               | Some strategyName \<Rightarrow>
                   if strategyName \<noteq> [] then
                     strategies @
                       [\<lparr> name = strategyName,
                          details = trim (replace_first False strategyNamePattern m) \<rparr>]
                   else strategies))
       [] (match_all True strategyPattern rawResponse)"

definition parseSection :: "string \<Rightarrow> string \<Rightarrow> string" where
  "parseSection heading rawResponse =
     (case exec True (sectionPattern heading) rawResponse of
        None \<Rightarrow> []
      | Some m \<Rightarrow> (case groups m 1 of None \<Rightarrow> [] | Some g \<Rightarrow> trim g))"

definition parseAnalysisResponse :: "string \<Rightarrow> 'a calendar_event_scheme \<Rightarrow> analysis" where
  "parseAnalysisResponse rawResponse opportunity =
     \<lparr> sentimentScore =
         (case first_match True sentimentPatterns rawResponse of
            None \<Rightarrow> None
          | Some m \<Rightarrow> map_option parseInt (groups m 1)),
       recommendation =
         (case first_match True recommendationPatterns rawResponse of
            None \<Rightarrow> ''NEUTRAL''
          | Some m \<Rightarrow> (case groups m 1 of None \<Rightarrow> ''NEUTRAL'' | Some g \<Rightarrow> toUpperCase g)),
       strategies = parseStrategies rawResponse,
       symbol_a = symbol opportunity,
       volatilityAssessment = parseSection ''VOLATILITY ASSESSMENT'' rawResponse,
       riskFactors = parseSection ''RISK FACTORS'' rawResponse,
       positionSizing = parseSection ''POSITION SIZING'' rawResponse,
       rawAnalysis = rawResponse \<rparr>"

section \<open>Analysis engine (\<open>generateTradingIdeas\<close>, gemini.js)\<close>

record trading_idea =
  opportunity :: opportunity
  analysis :: analysis
  timestamp :: string


subsection \<open>The prompt templates\<close>

















subsection \<open>The batch parser\<close>










subsection \<open>The engine\<close>





section \<open>Concrete inputs\<close>

text \<open>A pipeline run: five calendar events, of which one is outside the universe, one
  is outside the time window and one has no volatility data.\<close>

definition example_env :: pipeline_env where
  "example_env =
     \<lparr> now = 0,
       nowAt = (\<lambda>i. 5),
       fetchCalendar = Inr \<lparr> ok = True, status = 200, statusText = ''OK'',
         json = Inr \<lparr> earningsCalendar = Some
           [\<lparr> symbol = ''MSFT'', date = Some (20 * 86400000),
               revenueEstimate = Some 62000000000, hour = Some ''bmo'' \<rparr>,
            \<lparr> symbol = ''AAPL'', date = Some (14 * 86400000),
               revenueEstimate = Some 95000000000, hour = Some ''amc'' \<rparr>,
            \<lparr> symbol = ''NVDA'', date = Some (30 * 86400000),
               revenueEstimate = Some 15000000000, hour = None \<rparr>,
            \<lparr> symbol = ''TINY'', date = Some (10 * 86400000),
               revenueEstimate = Some 50000000, hour = Some ''amc'' \<rparr>,
            \<lparr> symbol = ''ORCL'', date = Some (60 * 86400000),
               revenueEstimate = None, hour = None \<rparr>] \<rparr> \<rparr>,
       STOCK_UNIVERSE = [''AAPL'', ''MSFT'', ''NVDA'', ''ORCL''],
       getBulkVolatilityAnalysis = (\<lambda>symbols. Inr
         [''AAPL'' \<mapsto> \<lparr> currentPrice = Some 150, expectedMove = Some 6,
                        impliedVolatility = Some 30,
                        historicalVolatility = Some 25, volatilityScore_vd = Some 60,
                        optionsVolume = Some 12000,
                        technicalIndicators = Some \<lparr> rsi = Some 72 \<rparr> \<rparr>,
          ''MSFT'' \<mapsto> \<lparr> currentPrice = None, expectedMove = None,
                        impliedVolatility = None,
                        historicalVolatility = None, volatilityScore_vd = None,
                        optionsVolume = Some 2000,
                        technicalIndicators = None \<rparr>]),
       calculateVolatilityScore = (\<lambda>v. case v of None \<Rightarrow> None | Some vd \<Rightarrow> Some 35) \<rparr>"

definition example_out :: "opportunity list" where
  "example_out =
     [\<lparr> symbol = ''AAPL'', date = Some 1209600000,
         revenueEstimate = Some 95000000000, hour = Some ''amc'',
         daysToEarnings = Some 14, prescreenScore = 20,
         volatilityData =
           Some \<lparr> currentPrice = Some 150, expectedMove = Some 6,
                  impliedVolatility = Some 30,
                  historicalVolatility = Some 25, volatilityScore_vd = Some 60,
                  optionsVolume = Some 12000,
                  technicalIndicators = Some \<lparr> rsi = Some 72 \<rparr> \<rparr>,
         volatilityScore = Some 35, qualityScore = 109 \<rparr>,
      \<lparr> symbol = ''MSFT'', date = Some 1728000000,
         revenueEstimate = Some 62000000000, hour = Some ''bmo'',
         daysToEarnings = Some 20, prescreenScore = 19,
         volatilityData =
           Some \<lparr> currentPrice = None, expectedMove = None, impliedVolatility = None,
                  historicalVolatility = None, volatilityScore_vd = None,
                  optionsVolume = Some 2000, technicalIndicators = None \<rparr>,
         volatilityScore = Some 35, qualityScore = 71 \<rparr>]"

text \<open>An upstream that answers every request with \<open>401 Unauthorized\<close>, as the mock of
  the test "should handle unauthorized access" does.\<close>

definition unauthorized_env :: http_env where
  "unauthorized_env =
     \<lparr> fetch = (\<lambda>n url. Inr \<lparr> ok = False, status = 401, statusText = ''Unauthorized'',
                                 json = Inl (JsonError ''no body'') \<rparr>),
       random = (\<lambda>n. 0) \<rparr>"

text \<open>Four upstreams that answer every request with \<open>200 OK\<close>, with the bodies
  \<open>{}\<close>, \<open>{"earningsCalendar": null}\<close>, \<open>[]\<close> and \<open>null\<close>.\<close>

definition empty_body_env :: http_env where
  "empty_body_env =
     \<lparr> fetch = (\<lambda>n url. Inr \<lparr> ok = True, status = 200, statusText = ''OK'',
                                 json = Inr (JObj []) \<rparr>),
       random = (\<lambda>n. 0) \<rparr>"

definition null_calendar_env :: http_env where
  "null_calendar_env =
     \<lparr> fetch = (\<lambda>n url. Inr \<lparr> ok = True, status = 200, statusText = ''OK'',
                                 json = Inr (JObj [(''earningsCalendar'', JNull)]) \<rparr>),
       random = (\<lambda>n. 0) \<rparr>"

definition array_body_env :: http_env where
  "array_body_env =
     \<lparr> fetch = (\<lambda>n url. Inr \<lparr> ok = True, status = 200, statusText = ''OK'',
                                 json = Inr (JArr []) \<rparr>),
       random = (\<lambda>n. 0) \<rparr>"

definition null_body_env :: http_env where
  "null_body_env =
     \<lparr> fetch = (\<lambda>n url. Inr \<lparr> ok = True, status = 200, statusText = ''OK'',
                                 json = Inr JNull \<rparr>),
       random = (\<lambda>n. 0) \<rparr>"

definition world0 :: world where
  "world0 = \<lparr> fetches = 0, draws = 0, slept = [] \<rparr>"

text \<open>Three outcomes of the quote fetch: a rejection, a \<open>503\<close>, and \<open>{"c": 17}\<close>.\<close>

definition vix_rejected :: market_env where
  "vix_rejected =
     \<lparr> fetchVix = Inl (NetworkError ''connection reset''), convert = (\<lambda>j. None),
       nowISO = ''2025-01-10T12:00:00.000Z'' \<rparr>"

definition vix_unavailable :: market_env where
  "vix_unavailable =
     \<lparr> fetchVix = Inr \<lparr> ok = False, status = 503, statusText = ''Service Unavailable'',
                         json = Inl (JsonError ''no body'') \<rparr>,
       convert = (\<lambda>j. None), nowISO = ''2025-01-10T12:00:00.000Z'' \<rparr>"

definition vix_17 :: market_env where
  "vix_17 =
     \<lparr> fetchVix = Inr \<lparr> ok = True, status = 200, statusText = ''OK'',
                         json = Inr (JObj [(''c'', JNum 17)]) \<rparr>,
       convert = (\<lambda>j. None), nowISO = ''2025-01-10T12:00:00.000Z'' \<rparr>"

definition unknown_context :: market_context where
  "unknown_context = \<lparr> vix = Some JNull, marketRegime = ''unknown'', lastUpdated = None \<rparr>"

text \<open>The reply of the parser example.\<close>

definition iron_condor_reply :: string where
  "iron_condor_reply =
     ''**SENTIMENT SCORE:** 8'' @ [CHR 0x0A] @ ''**RECOMMENDATION:** NEUTRAL'' @ [CHR 0x0A]
       @ ''1. **Iron Condor** - POP: 70%, Risk: $200, Entry: open''"














section \<open>Theorems\<close>

text \<open>
  C8. On \<open>{sentimentScore: 3, recommendation: "STRONGLY CONSIDER", strategies: []}\<close> the
  validator returns \<open>isValid = false\<close> and the issues list is exactly
  "No strategies provided" followed by "Inconsistent sentiment and recommendation";
  and for every input the returned \<open>isValid\<close> is true if and only if the returned
  issues list is empty.
\<close>

theorem validateAnalysis_example_and_isValid_iff:
  "validateAnalysis \<lparr> sentimentScore = Some 3, recommendation = ''STRONGLY CONSIDER'',
                      strategies = [] \<rparr>
     = \<lparr> isValid = False,
         issues = [''No strategies provided'',
                   ''Inconsistent sentiment and recommendation''] \<rparr>
   \<and> isValid (validateAnalysis a) = (issues (validateAnalysis a) = [])"
  by (simp add: validateAnalysis_def truthy_int_def num_lt_def num_gt_def Let_def)

theorem validateAnalysis_example_and_isValid_iff_witness:
  "isValid (validateAnalysis \<lparr> sentimentScore = Some 8, recommendation = ''STRONGLY CONSIDER'',
                                strategies = [\<lparr> name = ''Bull Call Spread'', details = '''' \<rparr>] \<rparr>)
   \<and> issues (validateAnalysis \<lparr> sentimentScore = Some 8,
                                recommendation = ''STRONGLY CONSIDER'',
                                strategies = [\<lparr> name = ''Bull Call Spread'', details = '''' \<rparr>] \<rparr>)
       = []"
proof -
  have "issues (validateAnalysis \<lparr> sentimentScore = Some 8,
                                recommendation = ''STRONGLY CONSIDER'',
                                strategies = [\<lparr> name = ''Bull Call Spread'', details = '''' \<rparr>] \<rparr>)
       = []"
    by (simp add: validateAnalysis_def truthy_int_def num_lt_def num_gt_def Let_def)
  then show ?thesis
    using validateAnalysis_example_and_isValid_iff
      [of "\<lparr> sentimentScore = Some 8, recommendation = ''STRONGLY CONSIDER'',
             strategies = [\<lparr> name = ''Bull Call Spread'', details = '''' \<rparr>] \<rparr>"]
    by simp
qed

text \<open>
  C3, as stated, fails: with \<open>daysToEarnings\<close> and \<open>hour\<close> fixed, the event with the
  revenue estimate 50,000,000 scores 13 and the event with the lower estimate 0 scores
  15, because an estimate of 0 is falsy and takes the neutral 5 of a missing estimate.
\<close>

theorem calculatePrescreenScore_revenue_counterexample:
  "calculatePrescreenScore
      \<lparr> symbol = ''SMALL'', date = None, revenueEstimate = Some 50000000,
        hour = Some ''amc'' \<rparr> (Some 14) = 13
   \<and> calculatePrescreenScore
      \<lparr> symbol = ''SMALL'', date = None, revenueEstimate = Some 0,
        hour = Some ''amc'' \<rparr> (Some 14) = 15"
  by (simp add: calculatePrescreenScore_def truthy_num_def num_gt_def num_ge_def num_le_def
        Let_def)

text \<open>
  C3, amended. The prescreen score is a function of the event's revenue estimate, its
  hour and \<open>daysToEarnings\<close> alone; and with \<open>daysToEarnings\<close> and \<open>hour\<close> fixed, of two
  events with revenue estimates \<open>r1 < r2\<close> the second scores at least as much as the
  first, provided \<open>r1\<close> is not 0 or \<open>r2\<close> exceeds 100,000,000.
\<close>

theorem calculatePrescreenScore_revenue_monotone:
  "(revenueEstimate e1 = revenueEstimate e2 \<and> hour e1 = hour e2
      \<longrightarrow> calculatePrescreenScore e1 d = calculatePrescreenScore e2 d)
   \<and> (revenueEstimate e1 = Some r1 \<and> revenueEstimate e2 = Some r2 \<and> hour e1 = hour e2
        \<and> r1 < r2 \<and> (r1 \<noteq> 0 \<or> 100000000 < r2)
      \<longrightarrow> calculatePrescreenScore e1 d \<le> calculatePrescreenScore e2 d)"
  by (auto simp: calculatePrescreenScore_def truthy_num_def num_gt_def Let_def)

theorem calculatePrescreenScore_revenue_monotone_witness:
  "calculatePrescreenScore
      \<lparr> symbol = ''SMALL'', date = None, revenueEstimate = Some 50000000,
        hour = Some ''amc'' \<rparr> (Some 14)
   \<le> calculatePrescreenScore
      \<lparr> symbol = ''AAPL'', date = None, revenueEstimate = Some 50000000000,
        hour = Some ''amc'' \<rparr> (Some 14)"
  using calculatePrescreenScore_revenue_monotone
    [of "\<lparr> symbol = ''SMALL'', date = None, revenueEstimate = Some 50000000,
            hour = Some ''amc'' \<rparr>"
        "\<lparr> symbol = ''AAPL'', date = None, revenueEstimate = Some 50000000000,
            hour = Some ''amc'' \<rparr>"
        "Some 14" 50000000 50000000000]
  by simp

text \<open>
  C9. For an event whose revenue estimate is 0 the size sub-score is the neutral 5: the
  score is 5 plus the timing and session sub-scores, the same as with the estimate
  missing, whereas any non-zero estimate up to 100,000,000 gives 3 plus the same
  sub-scores.
\<close>

theorem calculatePrescreenScore_zero_revenue:
  "revenueEstimate e = Some 0 \<Longrightarrow>
     calculatePrescreenScore e d =
       5 + (if num_ge d 7 \<and> num_le d 21 then 8
            else if num_ge d 3 \<and> num_le d 30 then 5 else 2)
         + (if hour e = Some ''amc'' then 2 else if hour e = Some ''bmo'' then 1 else 0)
     \<and> calculatePrescreenScore (e \<lparr> revenueEstimate := None \<rparr>) d
         = calculatePrescreenScore e d
     \<and> (\<forall>r. r \<noteq> 0 \<and> r \<le> 100000000 \<longrightarrow>
           calculatePrescreenScore (e \<lparr> revenueEstimate := Some r \<rparr>) d
             = calculatePrescreenScore e d - 2)"
  by (simp add: calculatePrescreenScore_def truthy_num_def num_gt_def Let_def)

theorem calculatePrescreenScore_zero_revenue_witness:
  "calculatePrescreenScore
      \<lparr> symbol = ''SMALL'', date = None, revenueEstimate = Some 0, hour = Some ''bmo'' \<rparr>
      (Some 2) = 8
   \<and> calculatePrescreenScore
      \<lparr> symbol = ''SMALL'', date = None, revenueEstimate = None, hour = Some ''bmo'' \<rparr>
      (Some 2) = 8
   \<and> calculatePrescreenScore
      \<lparr> symbol = ''SMALL'', date = None, revenueEstimate = Some 1, hour = Some ''bmo'' \<rparr>
      (Some 2) = 6"
  using calculatePrescreenScore_zero_revenue
    [of "\<lparr> symbol = ''SMALL'', date = None, revenueEstimate = Some 0,
            hour = Some ''bmo'' \<rparr>" "Some 2"]
  by (simp add: num_ge_def num_le_def)

text \<open>
  C5. The time-window filter keeps exactly the events whose ceiling of (event date
  minus today, in days) lies in \<open>[1, 45]\<close>, that is, the events dated more than 0 and at
  most 45 days after \<open>fromDate\<close>: an event exactly 0 days out and one exactly 46 days out
  are excluded, events exactly 1 and exactly 45 days out are included.
\<close>

theorem timeWindowFilter_window:
  "timeWindowFilter fromDate evs =
     filter (\<lambda>e. case date e of
                   None \<Rightarrow> False
                 | Some t \<Rightarrow> 1 \<le> \<lceil>real_of_int (t - fromDate) / 86400000\<rceil>
                          \<and> \<lceil>real_of_int (t - fromDate) / 86400000\<rceil> \<le> 45) evs
   \<and> (\<forall>e \<in> set evs.
         (date e = Some fromDate \<longrightarrow> e \<notin> set (timeWindowFilter fromDate evs))
       \<and> (date e = Some (fromDate + 46 * 86400000)
            \<longrightarrow> e \<notin> set (timeWindowFilter fromDate evs))
       \<and> (date e = Some (fromDate + 1 * 86400000)
            \<longrightarrow> e \<in> set (timeWindowFilter fromDate evs))
       \<and> (date e = Some (fromDate + 45 * 86400000)
            \<longrightarrow> e \<in> set (timeWindowFilter fromDate evs))
       \<and> (\<forall>t. date e = Some t \<longrightarrow>
             (e \<in> set (timeWindowFilter fromDate evs)
                \<longleftrightarrow> 0 < t - fromDate \<and> t - fromDate \<le> 45 * 86400000)))"
proof -
  have "timeWindowFilter fromDate evs =
     filter (\<lambda>e. case date e of
                   None \<Rightarrow> False
                 | Some t \<Rightarrow> 1 \<le> \<lceil>real_of_int (t - fromDate) / 86400000\<rceil>
                          \<and> \<lceil>real_of_int (t - fromDate) / 86400000\<rceil> \<le> 45) evs"
    unfolding timeWindowFilter_def daysBetween_def num_ge_def num_le_def Let_def
    by (rule filter_cong) (auto split: option.splits)
  moreover have "real_of_int t - real_of_int fromDate \<le> 3888000000
                   \<longleftrightarrow> t - fromDate \<le> 3888000000" for t
    by linarith
  ultimately show ?thesis
    by (simp add: ceiling_le_iff le_ceiling_iff)
qed

theorem timeWindowFilter_window_witness:
  "timeWindowFilter 1000
     [\<lparr> symbol = ''A'', date = Some 1000, revenueEstimate = None, hour = None \<rparr>,
      \<lparr> symbol = ''B'', date = Some 86401000, revenueEstimate = None, hour = None \<rparr>,
      \<lparr> symbol = ''C'', date = Some 3888001000, revenueEstimate = None, hour = None \<rparr>,
      \<lparr> symbol = ''D'', date = Some 3974401000, revenueEstimate = None, hour = None \<rparr>,
      \<lparr> symbol = ''E'', date = None, revenueEstimate = None, hour = None \<rparr>]
   = [\<lparr> symbol = ''B'', date = Some 86401000, revenueEstimate = None, hour = None \<rparr>,
      \<lparr> symbol = ''C'', date = Some 3888001000, revenueEstimate = None, hour = None \<rparr>]"
  using timeWindowFilter_window [of 1000
     "[\<lparr> symbol = ''A'', date = Some 1000, revenueEstimate = None, hour = None \<rparr>,
      \<lparr> symbol = ''B'', date = Some 86401000, revenueEstimate = None, hour = None \<rparr>,
      \<lparr> symbol = ''C'', date = Some 3888001000, revenueEstimate = None, hour = None \<rparr>,
      \<lparr> symbol = ''D'', date = Some 3974401000, revenueEstimate = None, hour = None \<rparr>,
      \<lparr> symbol = ''E'', date = None, revenueEstimate = None, hour = None \<rparr>]"]
  by simp

lemma sorted_sort_desc: "sorted_wrt (\<lambda>a b. key a \<ge> key b) (sort_desc key xs)"
proof -
  have "sorted (map (\<lambda>x. - key x) (sort_key (\<lambda>x. - key x) xs))"
    by (rule sorted_sort_key)
  then show ?thesis
    unfolding sort_desc_def by (simp add: sorted_wrt_map)
qed

lemma set_sort_desc: "set (sort_desc key xs) = set xs"
  by (simp add: sort_desc_def)

text \<open>The last stage of the pipeline, lines 169--176.\<close>

lemma final_stage:
  fixes enhanced :: "opportunity list"
  defines "out \<equiv> take 5 (sort_desc qualityScore
                      (filter (\<lambda>opp. qualityScore opp > 5)
                        (filter (\<lambda>opp. volatilityData opp \<noteq> None) enhanced)))"
  shows "length out \<le> 5"
    and "\<forall>opp \<in> set out. volatilityData opp \<noteq> None \<and> qualityScore opp > 5"
    and "sorted_wrt (\<lambda>a b. qualityScore a \<ge> qualityScore b) out"
proof -
  show "length out \<le> 5"
    by (simp add: out_def)
  show "\<forall>opp \<in> set out. volatilityData opp \<noteq> None \<and> qualityScore opp > 5"
  proof
    fix opp assume "opp \<in> set out"
    then have "opp \<in> set (sort_desc qualityScore
                      (filter (\<lambda>opp. qualityScore opp > 5)
                        (filter (\<lambda>opp. volatilityData opp \<noteq> None) enhanced)))"
      unfolding out_def by (rule in_set_takeD)
    then show "volatilityData opp \<noteq> None \<and> qualityScore opp > 5"
      by (simp add: set_sort_desc)
  qed
  show "sorted_wrt (\<lambda>a b. qualityScore a \<ge> qualityScore b) out"
    unfolding out_def by (intro sorted_wrt_take sorted_sort_desc)
qed

text \<open>A run that returns a list returns the empty list of line 121 or the list of
  line 176.\<close>

lemma getEarningsOpportunities_returns:
  assumes "getEarningsOpportunities E = Inr out"
  shows "out = [] \<or> (\<exists>vm pre. out = take 5 (sort_desc qualityScore
                      (filter (\<lambda>opp. qualityScore opp > 5)
                        (filter (\<lambda>opp. volatilityData opp \<noteq> None)
                          (map (enhance E vm) pre)))))"
proof (cases "fetchCalendar E")
  case (Inl err)
  with assms show ?thesis
    by (simp add: getEarningsOpportunities_def)
next
  case (Inr response)
  note r = Inr
  show ?thesis
  proof (cases "ok response")
    case False
    with assms r show ?thesis
      by (simp add: getEarningsOpportunities_def)
  next
    case True
    note okr = True
    show ?thesis
    proof (cases "json response")
      case (Inl err)
      with assms r okr show ?thesis
        by (simp add: getEarningsOpportunities_def)
    next
      case (Inr data)
      note d = Inr
      define tw where "tw = timeWindowFilter (now E)
        (filter (\<lambda>event. symbol event \<in> set (STOCK_UNIVERSE E))
          (case earningsCalendar data of Some evs \<Rightarrow> evs | None \<Rightarrow> []))"
      define pre where
        "pre = take 8 (sort_desc prescreenScore (map (prescreen E) (enumerate 0 tw)))"
      show ?thesis
      proof (cases "length tw = 0")
        case True
        with assms r okr d show ?thesis
          by (simp add: getEarningsOpportunities_def Let_def tw_def)
      next
        case False
        note ne = False
        show ?thesis
        proof (cases "getBulkVolatilityAnalysis E (map symbol pre)")
          case (Inl err)
          with assms r okr d ne show ?thesis
            by (simp add: getEarningsOpportunities_def Let_def tw_def pre_def)
        next
          case (Inr vm)
          with assms r okr d ne have "out = take 5 (sort_desc qualityScore
                      (filter (\<lambda>opp. qualityScore opp > 5)
                        (filter (\<lambda>opp. volatilityData opp \<noteq> None)
                          (map (enhance E vm) pre))))"
            by (simp add: getEarningsOpportunities_def Let_def tw_def pre_def)
          then show ?thesis by blast
        qed
      qed
    qed
  qed
qed

text \<open>
  C2. Whatever the calendar, the universe, the clock and the volatility collaborator
  supply, a list returned by \<open>getEarningsOpportunities\<close> has at most 5 elements, each
  with volatility data and a quality score above 5, in descending order of quality
  score.
\<close>

theorem getEarningsOpportunities_output:
  assumes "getEarningsOpportunities E = Inr out"
  shows "length out \<le> 5
       \<and> (\<forall>opp \<in> set out. volatilityData opp \<noteq> None \<and> qualityScore opp > 5)
       \<and> sorted_wrt (\<lambda>a b. qualityScore a \<ge> qualityScore b) out"
proof -
  from getEarningsOpportunities_returns [OF assms] show ?thesis
  proof
    assume "out = []"
    then show ?thesis by simp
  next
    assume "\<exists>vm pre. out = take 5 (sort_desc qualityScore
                      (filter (\<lambda>opp. qualityScore opp > 5)
                        (filter (\<lambda>opp. volatilityData opp \<noteq> None)
                          (map (enhance E vm) pre))))"
    then obtain vm pre where o: "out = take 5 (sort_desc qualityScore
                      (filter (\<lambda>opp. qualityScore opp > 5)
                        (filter (\<lambda>opp. volatilityData opp \<noteq> None)
                          (map (enhance E vm) pre))))"
      by blast
    show ?thesis
      unfolding o by (intro conjI final_stage)
  qed
qed

lemma example_run: "getEarningsOpportunities example_env = Inr example_out"
  by code_simp

theorem getEarningsOpportunities_output_witness:
  "getEarningsOpportunities example_env = Inr example_out
   \<and> length example_out = 2
   \<and> list_all (\<lambda>opp. volatilityData opp \<noteq> None \<and> qualityScore opp > 5) example_out
   \<and> sorted_wrt (\<lambda>a b. qualityScore a \<ge> qualityScore b) example_out"
proof -
  have "length example_out = 2"
    by (simp add: example_out_def)
  then show ?thesis
    using example_run getEarningsOpportunities_output [OF example_run]
    by (simp add: list_all_iff)
qed

text \<open>
  C1, on the code. Against an upstream that answers \<open>401 Unauthorized\<close>, \<open>makeRequest\<close>
  with the default options does fail with the error carrying 401 and the status text,
  but only after four fetches and three backoff delays: the error thrown at line 28 is
  caught by the \<open>catch\<close> of line 36, which retries while attempts remain.
\<close>

theorem makeRequest_unauthorized_is_retried:
  "makeRequest unauthorized_env (new_FinnhubAPI ''test-finnhub-key'' 0)
      ''/quote?symbol=AAPL'' 3 400 world0
   = (Inl (HttpError 401 ''Unauthorized''),
      \<lparr> fetches = 4, draws = 3, slept = [400, 800, 1600] \<rparr>)"
  by code_simp

text \<open>The same holds of every upstream that answers each request with a response that
  is not 2xx, whatever its status: the loop runs through all its attempts.\<close>

lemma fetches_backoff: "fetches (backoff E b a w) = fetches w"
  by (simp add: backoff_def Let_def)

lemma loop_body_failed_response:
  assumes "fetch E (fetches w) url = Inr r" and "\<not> ok r"
  shows "\<exists>le w'. loop_body E this url retries b attempt lastError w = (Inr le, w')
           \<and> fetches w' = fetches w + 1"
  using assms
  by (auto simp: loop_body_def catch_block_def Let_def fetches_backoff)

lemma makeRequest_loop_failed_responses:
  assumes "\<And>n. \<exists>r. fetch E n url = Inr r \<and> \<not> ok r"
  shows "fetches (snd (makeRequest_loop E this url retries b attempt lastError w))
           = fetches w + nat (retries + 1 - attempt)"
  using assms
proof (induction E this url retries b attempt lastError w rule: makeRequest_loop.induct)
  case (1 E this url retries b attempt lastError w)
  show ?case
  proof (cases "attempt \<le> retries")
    case False
    then show ?thesis
      by (subst makeRequest_loop.simps) simp
  next
    case True
    from "1.prems" obtain r where r: "fetch E (fetches w) url = Inr r" "\<not> ok r"
      by blast
    from loop_body_failed_response[OF r] obtain le w' where
      lb: "loop_body E this url retries b attempt lastError w = (Inr le, w')"
      and f: "fetches w' = fetches w + 1"
      by blast
    have "fetches (snd (makeRequest_loop E this url retries b (attempt + 1) le w'))
           = fetches w' + nat (retries + 1 - (attempt + 1))"
      using True lb "1.prems" by (intro "1.IH") auto
    with True lb f show ?thesis
      by (subst makeRequest_loop.simps) (simp del: makeRequest_loop.simps)
  qed
qed

lemma makeRequest_failed_responses:
  assumes "\<And>n url. \<exists>r. fetch E n url = Inr r \<and> \<not> ok r"
  shows "fetches (snd (makeRequest E this endpoint retries b w))
           = fetches w + nat (retries + 1)"
  using makeRequest_loop_failed_responses[where attempt = 0, OF assms]
  by (simp add: makeRequest_def Let_def)

text \<open>The member \<open>earningsCalendar\<close> can be read on every body but \<open>null\<close>.\<close>

lemma member_of_defined: "(\<exists>v. member_of data k = Inr v) \<longleftrightarrow> data \<noteq> JNull"
  by (cases data) (simp_all add: member_of_def)

text \<open>On the body \<open>null\<close> the member read throws, whatever the upstream and the dates.\<close>

lemma getEarningsCalendar_null_body:
  assumes "fst (makeRequest E this (''/calendar/earnings?from='' @ fromDate @ ''&to='' @ toDate)
                  3 400 w) = Inr JNull"
  shows "\<exists>msg. fst (getEarningsCalendar E this fromDate toDate w) = Inl (TypeError msg)"
  using assms
  by (auto simp: getEarningsCalendar_def member_of_def split: prod.splits sum.splits)

text \<open>
  C10, as stated, fails on the code. A \<open>200 OK\<close> whose body is the JSON value \<open>null\<close> is
  a successful response that lacks the field \<open>earningsCalendar\<close>: \<open>makeRequest\<close> returns
  \<open>null\<close>, the member read \<open>data.earningsCalendar\<close> of line 51 throws a TypeError, and
  \<open>getEarningsCalendar\<close> fails instead of returning the empty list.
\<close>

theorem getEarningsCalendar_null_body_counterexample:
  "fst (makeRequest null_body_env (new_FinnhubAPI ''test-finnhub-key'' 0)
          ''/calendar/earnings?from=2025-01-15&to=2025-01-20'' 3 400 world0) = Inr JNull
   \<and> fst (getEarningsCalendar null_body_env (new_FinnhubAPI ''test-finnhub-key'' 0)
            ''2025-01-15'' ''2025-01-20'' world0)
       = Inl (TypeError (''Cannot read properties of null (reading ''
                           @ [CHR 0x27] @ ''earningsCalendar'' @ [CHR 0x27] @ '')''))"
  by code_simp

text \<open>
  C10, amended. When the request succeeds with a body other than \<open>null\<close> (so that the
  member \<open>earningsCalendar\<close> can be read: \<open>member_of data k = Inr v\<close> says so, with \<open>v\<close>
  the member read) and the member is missing, \<open>null\<close> or otherwise falsy (\<open>false\<close>, \<open>0\<close>,
  the empty string), \<open>getEarningsCalendar\<close> returns the empty list.
\<close>

theorem getEarningsCalendar_default_empty:
  assumes "fst (makeRequest E this (''/calendar/earnings?from='' @ fromDate @ ''&to='' @ toDate)
                  3 400 w) = Inr data"
    and "data \<noteq> JNull"
    and "member_of data ''earningsCalendar'' = Inr v"
    and "\<not> truthy v"
  shows "fst (getEarningsCalendar E this fromDate toDate w) = Inr (JArr [])"
  using assms
  by (auto simp: getEarningsCalendar_def split: prod.splits sum.splits option.splits)

theorem getEarningsCalendar_default_empty_witness:
  "fst (getEarningsCalendar empty_body_env (new_FinnhubAPI ''test-finnhub-key'' 0)
          ''2025-01-15'' ''2025-01-20'' world0) = Inr (JArr [])
   \<and> fst (getEarningsCalendar null_calendar_env (new_FinnhubAPI ''test-finnhub-key'' 0)
            ''2025-01-15'' ''2025-01-20'' world0) = Inr (JArr [])
   \<and> fst (getEarningsCalendar array_body_env (new_FinnhubAPI ''test-finnhub-key'' 0)
            ''2025-01-15'' ''2025-01-20'' world0) = Inr (JArr [])"
proof -
  have a: "fst (makeRequest empty_body_env (new_FinnhubAPI ''test-finnhub-key'' 0)
          (''/calendar/earnings?from='' @ ''2025-01-15'' @ ''&to='' @ ''2025-01-20'')
          3 400 world0) = Inr (JObj [])"
    by code_simp
  have a1: "JObj [] \<noteq> JNull"
    and a2: "member_of (JObj []) ''earningsCalendar'' = Inr None"
    and a3: "\<not> truthy None"
    by (simp_all add: member_of_def truthy_def)
  have b: "fst (makeRequest null_calendar_env (new_FinnhubAPI ''test-finnhub-key'' 0)
          (''/calendar/earnings?from='' @ ''2025-01-15'' @ ''&to='' @ ''2025-01-20'')
          3 400 world0) = Inr (JObj [(''earningsCalendar'', JNull)])"
    by code_simp
  have b1: "JObj [(''earningsCalendar'', JNull)] \<noteq> JNull"
    and b2: "member_of (JObj [(''earningsCalendar'', JNull)]) ''earningsCalendar''
               = Inr (Some JNull)"
    and b3: "\<not> truthy (Some JNull)"
    by (simp_all add: member_of_def truthy_def)
  have c: "fst (makeRequest array_body_env (new_FinnhubAPI ''test-finnhub-key'' 0)
          (''/calendar/earnings?from='' @ ''2025-01-15'' @ ''&to='' @ ''2025-01-20'')
          3 400 world0) = Inr (JArr [])"
    by code_simp
  have c1: "JArr [] \<noteq> JNull"
    and c2: "member_of (JArr []) ''earningsCalendar'' = Inr None"
    by (simp_all add: member_of_def)
  from getEarningsCalendar_default_empty [OF a a1 a2 a3]
       getEarningsCalendar_default_empty [OF b b1 b2 b3]
       getEarningsCalendar_default_empty [OF c c1 c2 a3]
  show ?thesis
    by simp
qed

text \<open>
  C6. \<open>getMarketContext\<close> never throws; when the fetch fails or the response is not
  2xx it returns \<open>{vix: null, marketRegime: 'unknown'}\<close>; on a successful response with
  the quote value \<open>v\<close> the regime is high-volatility if \<open>v > 30\<close>, else
  elevated-volatility if \<open>v > 20\<close>, else low-volatility if \<open>v < 15\<close>, else normal, so
  every \<open>v\<close> from 15 to 20 is normal.
\<close>

theorem getMarketContext_fails_soft:
  "(\<exists>context. getMarketContext E = Inr context)
   \<and> (fetchVix E = Inl err \<longrightarrow> getMarketContext E = Inr unknown_context)
   \<and> (fetchVix E = Inr r \<and> \<not> ok r \<longrightarrow> getMarketContext E = Inr unknown_context)
   \<and> (fetchVix E = Inr r \<and> ok r \<and> json r = Inr (JObj kvs) \<and> map_of kvs ''c'' = Some (JNum v)
        \<longrightarrow> getMarketContext E =
              Inr \<lparr> vix = Some (JNum v),
                    marketRegime =
                      (if v > 30 then ''high-volatility''
                       else if v > 20 then ''elevated-volatility''
                       else if v < 15 then ''low-volatility''
                       else ''normal''),
                    lastUpdated = Some (nowISO E) \<rparr>
            \<and> (15 \<le> v \<and> v \<le> 20
                 \<longrightarrow> marketRegime (projr (getMarketContext E)) = ''normal''))"
proof -
  have "\<exists>context. getMarketContext E = Inr context"
    by (simp add: getMarketContext_def split: sum.splits)
  moreover have "fetchVix E = Inl err \<longrightarrow> getMarketContext E = Inr unknown_context"
    by (simp add: getMarketContext_def getMarketContext_try_def unknown_context_def)
  moreover have "fetchVix E = Inr r \<and> \<not> ok r \<longrightarrow> getMarketContext E = Inr unknown_context"
    by (simp add: getMarketContext_def getMarketContext_try_def unknown_context_def)
  moreover have "fetchVix E = Inr r \<and> ok r \<and> json r = Inr (JObj kvs)
        \<and> map_of kvs ''c'' = Some (JNum v)
        \<longrightarrow> getMarketContext E =
              Inr \<lparr> vix = Some (JNum v),
                    marketRegime =
                      (if v > 30 then ''high-volatility''
                       else if v > 20 then ''elevated-volatility''
                       else if v < 15 then ''low-volatility''
                       else ''normal''),
                    lastUpdated = Some (nowISO E) \<rparr>
            \<and> (15 \<le> v \<and> v \<le> 20
                 \<longrightarrow> marketRegime (projr (getMarketContext E)) = ''normal'')"
    by (simp add: getMarketContext_def getMarketContext_try_def member_of_def toNumber_def
          num_gt_def num_lt_def Let_def)
  ultimately show ?thesis by blast
qed

theorem getMarketContext_fails_soft_witness:
  "getMarketContext vix_rejected = Inr unknown_context
   \<and> getMarketContext vix_unavailable = Inr unknown_context
   \<and> getMarketContext vix_17 =
       Inr \<lparr> vix = Some (JNum 17), marketRegime = ''normal'',
             lastUpdated = Some ''2025-01-10T12:00:00.000Z'' \<rparr>"
  using getMarketContext_fails_soft
          [of vix_rejected "NetworkError ''connection reset''"]
        getMarketContext_fails_soft
          [of vix_unavailable _
              "\<lparr> ok = False, status = 503, statusText = ''Service Unavailable'',
                 json = Inl (JsonError ''no body'') \<rparr>"]
        getMarketContext_fails_soft
          [of vix_17 _
              "\<lparr> ok = True, status = 200, statusText = ''OK'',
                 json = Inr (JObj [(''c'', JNum 17)]) \<rparr>" "[(''c'', JNum 17)]" 17]
  by (simp add: vix_rejected_def vix_unavailable_def vix_17_def)

text \<open>The parser on the reply \<open>iron_condor_reply\<close>, field by field.\<close>

lemma iron_condor_sentiment:
  "first_match True sentimentPatterns iron_condor_reply \<noteq> None
   \<and> groups (the (first_match True sentimentPatterns iron_condor_reply)) 1 = Some ''8''"
  by code_simp

lemma iron_condor_recommendation:
  "first_match True recommendationPatterns iron_condor_reply \<noteq> None
   \<and> groups (the (first_match True recommendationPatterns iron_condor_reply)) 1
       = Some ''NEUTRAL''"
  by code_simp

lemma iron_condor_strategies:
  "parseStrategies iron_condor_reply
     = [\<lparr> name = ''Iron Condor'', details = ''1.  - POP: 70%, Risk: $200, Entry: open'' \<rparr>]"
  by code_simp

lemma iron_condor_volatility:
  "parseSection ''VOLATILITY ASSESSMENT'' iron_condor_reply = []"
  by code_simp

lemma iron_condor_risk: "parseSection ''RISK FACTORS'' iron_condor_reply = []"
  by code_simp

lemma iron_condor_sizing: "parseSection ''POSITION SIZING'' iron_condor_reply = []"
  by code_simp

lemma iron_condor_analysis:
  "parseAnalysisResponse iron_condor_reply opp
    = \<lparr> sentimentScore = Some 8, recommendation = ''NEUTRAL'',
        strategies = [\<lparr> name = ''Iron Condor'',
                        details = ''1.  - POP: 70%, Risk: $200, Entry: open'' \<rparr>],
        symbol_a = symbol opp, volatilityAssessment = [], riskFactors = [],
        positionSizing = [], rawAnalysis = iron_condor_reply \<rparr>"
proof -
  have "parseInt ''8'' = 8"
    by (simp add: parseInt_def code_def)
  moreover have "toUpperCase ''NEUTRAL'' = ''NEUTRAL''"
    by code_simp
  ultimately show ?thesis
    using iron_condor_sentiment iron_condor_recommendation iron_condor_strategies
      iron_condor_volatility iron_condor_risk iron_condor_sizing
    by (auto simp: parseAnalysisResponse_def)
qed

text \<open>
  C7. On the reply \<open>"**SENTIMENT SCORE:** 8\n**RECOMMENDATION:** NEUTRAL\n1. **Iron
  Condor** - POP: 70%, Risk: $200, Entry: open"\<close> (with \<open>\n\<close> the line feed) the
  parser returns the sentiment score 8, the recommendation NEUTRAL and exactly one
  strategy, named Iron Condor.
\<close>

theorem parseAnalysisResponse_iron_condor:
  "iron_condor_reply =
     ''**SENTIMENT SCORE:** 8'' @ [CHR 0x0A] @ ''**RECOMMENDATION:** NEUTRAL'' @ [CHR 0x0A]
       @ ''1. **Iron Condor** - POP: 70%, Risk: $200, Entry: open''
   \<and> sentimentScore (parseAnalysisResponse iron_condor_reply opp) = Some 8
   \<and> recommendation (parseAnalysisResponse iron_condor_reply opp) = ''NEUTRAL''
   \<and> length (strategies (parseAnalysisResponse iron_condor_reply opp)) = 1
   \<and> map name (strategies (parseAnalysisResponse iron_condor_reply opp)) = [''Iron Condor'']"
  by (simp add: iron_condor_analysis) (simp add: iron_condor_reply_def)

































end
